theory Spec2Isabelle
  imports Main "HOL-Library.Word"
begin

unbundle bit_operations_syntax

section \<open>The drive launcher of MaidSafe-Drive (src/maidsafe/drive/tools/launcher.cc)\<close>

text \<open>
  A shallow embedding of \<^verbatim>\<open>launcher.cc\<close>. A function of the file is a HOL function
  of the same name (\<^verbatim>\<open>AdjustMountPath\<close> and the member \<^verbatim>\<open>kMountPath_\<close> it fills are left
  out: nothing else in the file reads them). What the file takes from other libraries
  (the SHA-512 hash, the random name, the executable directory, the child process and
  what it does while the launcher blocks) is a parameter of the model, collected in the
  record \<open>env\<close> below.
\<close>

subsection \<open>Errors\<close>

text \<open>
  The exceptions the file throws itself (\<^verbatim>\<open>ThrowError\<close>) and the ones its callees throw.
\<close>

datatype error =
    CommonErrors_uninitialised
  | CommonErrors_invalid_parameter
  | CommonErrors_invalid_string_size
  | DriveErrors_failed_to_mount
  | DriveErrors_no_drive_letter_available
  | ResourceUnavailable
  | NotFound
  | std_invalid_argument
  | std_out_of_range

subsection \<open>GetNextAvailableDrivePath (Windows only)\<close>

text \<open>
  \<^verbatim>\<open>
  uint32_t drive_letters(GetLogicalDrives()), mask(0x4);
  std::string path("C:");
  while (drive_letters & mask) { mask <<= 1; ++path[0]; }
  if (path[0] > 'Z') ThrowError(DriveErrors::no_drive_letter_available);
  return boost::filesystem::path(path);
  \<close>
  \<open>GetLogicalDrives()\<close> is the argument \<open>drive_letters\<close>: bit \<open>i\<close> is set when the
  \<open>i\<close>-th letter (A = 0) is assigned. The loop is \<open>drive_letter_loop\<close>; its third
  argument is the character code of \<open>path[0]\<close>. The code never exceeds 97
  (lemma \<open>drive_letter_loop_le\<close>), so the \<^verbatim>\<open>char\<close> does not wrap.
  \<open>mask\<close> is written \<open>mask_w\<close>, the name being taken in HOL.
\<close>

function drive_letter_loop :: "32 word \<Rightarrow> 32 word \<Rightarrow> nat \<Rightarrow> nat" where
  "drive_letter_loop drive_letters mask_w c =
     (if drive_letters AND mask_w \<noteq> 0
      then drive_letter_loop drive_letters (push_bit 1 mask_w) (c + 1)
      else c)"
  by pat_completeness auto

definition shifts_left :: "32 word \<Rightarrow> nat" where
  "shifts_left mask_w = (LEAST n. push_bit n mask_w = 0)"

lemma shifts_left_zero: "push_bit (shifts_left mask_w) mask_w = 0"
  unfolding shifts_left_def
proof (rule LeastI)
  show "push_bit 32 mask_w = 0"
    by (rule bit_eqI) (simp add: bit_push_bit_iff)
qed

lemma shifts_left_decreases:
  assumes "mask_w \<noteq> 0"
  shows "shifts_left (push_bit 1 mask_w) < shifts_left mask_w"
proof -
  have "shifts_left mask_w \<noteq> 0"
    using shifts_left_zero [of mask_w] assms by (cases "shifts_left mask_w") auto
  then obtain k where k: "shifts_left mask_w = Suc k"
    by (cases "shifts_left mask_w") auto
  have "push_bit k (push_bit 1 mask_w) = 0"
    using shifts_left_zero [of mask_w] by (simp add: k push_bit_push_bit)
  then have "shifts_left (push_bit 1 mask_w) \<le> k"
    unfolding shifts_left_def by (rule Least_le)
  then show ?thesis by (simp add: k)
qed

termination drive_letter_loop
proof (relation "measure (\<lambda>(drive_letters, mask_w, c). shifts_left mask_w)")
  show "wf (measure (\<lambda>(drive_letters, mask_w, c). shifts_left mask_w))" by simp
next
  fix drive_letters mask_w :: "32 word" and c :: nat
  assume "drive_letters AND mask_w \<noteq> 0"
  then have "mask_w \<noteq> 0" by auto
  then show "((drive_letters, push_bit 1 mask_w, c + 1), (drive_letters, mask_w, c))
      \<in> measure (\<lambda>(drive_letters, mask_w, c). shifts_left mask_w)"
    using shifts_left_decreases [of mask_w] by simp
qed

declare drive_letter_loop.simps [simp del]

definition GetNextAvailableDrivePath :: "32 word \<Rightarrow> error + string" where
  "GetNextAvailableDrivePath drive_letters =
     (let c = drive_letter_loop drive_letters 0x4 (of_char CHR ''C'') in
      if c > of_char CHR ''Z'' then Inl DriveErrors_no_drive_letter_available
      else Inr [char_of c, CHR '':''])"

subsection \<open>GetDriveExecutablePath\<close>

text \<open>
  Modelled from the spec: the declaration of \<^verbatim>\<open>enum class DriveType\<close> is in launcher.h,
  which is not among the sources. The spec lists its four values in the order local,
  local-with-console, network, network-with-console. A C++ enumeration can hold any
  value of its underlying type, which is what the \<^verbatim>\<open>default:\<close> branch is for, so a
  drive type is an integer here and the four enumerators are constants.
\<close>

type_synonym DriveType = int

definition kLocal :: DriveType where "kLocal = 0"
definition kLocalConsole :: DriveType where "kLocalConsole = 1"
definition kNetwork :: DriveType where "kNetwork = 2"
definition kNetworkConsole :: DriveType where "kNetworkConsole = 3"

text \<open>
  \<^verbatim>\<open>process::GetOtherExecutablePath\<close> (of MaidSafe-Common) is the parameter
  \<open>other_executable_path\<close>: from the name of an executable to its path. The
  \<^verbatim>\<open>switch\<close> is the chain of comparisons, its \<^verbatim>\<open>default:\<close> the last branch.
\<close>

definition GetDriveExecutablePath :: "(string \<Rightarrow> string) \<Rightarrow> DriveType \<Rightarrow> error + string" where
  "GetDriveExecutablePath other_executable_path dt =
     (if dt = kLocal then Inr (other_executable_path ''local_drive'')
      else if dt = kLocalConsole then Inr (other_executable_path ''local_drive_console'')
      else if dt = kNetwork then Inr (other_executable_path ''network_drive'')
      else if dt = kNetworkConsole then Inr (other_executable_path ''network_drive_console'')
      else Inl CommonErrors_invalid_parameter)"

subsection \<open>GetMountStatusSharedMemoryName\<close>

text \<open>
  Modelled from the spec: \<^verbatim>\<open>HexEncode\<close> is a function of MaidSafe-Common, not among the
  sources. The spec calls its output lowercase hex: two digits for each byte, the high
  half first.
\<close>

definition kHexAlphabet :: string where
  "kHexAlphabet = ''0123456789abcdef''"

definition HexEncode :: "string \<Rightarrow> string" where
  "HexEncode non_hex_input =
     concat (map (\<lambda>c. [kHexAlphabet ! (of_char c div 16), kHexAlphabet ! (of_char c mod 16)])
       non_hex_input)"

text \<open>
  \<^verbatim>\<open>return HexEncode(crypto::Hash<crypto::SHA512>(initial_shared_memory_name)).substr(0, 32);\<close>

  The hash is the parameter \<open>sha512\<close> (Crypto++ computes it; a SHA-512 digest has 64
  bytes, which the theorems about this function assume of \<open>sha512\<close>).
\<close>

definition GetMountStatusSharedMemoryName :: "(string \<Rightarrow> string) \<Rightarrow> string \<Rightarrow> string" where
  "GetMountStatusSharedMemoryName sha512 initial_shared_memory_name =
     take 32 (HexEncode (sha512 initial_shared_memory_name))"

subsection \<open>Options, and the shared memory of the machine\<close>

text \<open>
  Modelled from the spec: \<^verbatim>\<open>maidsafe::Identity\<close> is a type of MaidSafe-Common, not among
  the sources. The spec's identities are 64 bytes: an identity is a string, and the
  constructor from a string refuses any other length.
\<close>

type_synonym Identity = string

definition Identity_ctor :: "string \<Rightarrow> error + Identity" where
  "Identity_ctor s = (if length s = 64 then Inr s else Inl CommonErrors_invalid_string_size)"

text \<open>
  Modelled from the spec: \<^verbatim>\<open>struct Options\<close> is declared in launcher.h, not among the
  sources; its fields are the ones launcher.cc reads and writes. Paths
  (\<^verbatim>\<open>boost::filesystem::path\<close>) are strings.
\<close>

record Options =
  mount_path :: string
  storage_path :: string
  unique_id :: Identity
  root_parent_id :: Identity
  drive_name :: string
  create_store :: bool
  drive_type :: DriveType
  drive_logging_args :: string
  mount_status_shared_object_name :: string

text \<open>\<^verbatim>\<open>enum SharedMemoryArgIndex\<close>\<close>

definition kMountPathArg :: nat where "kMountPathArg = 0"
definition kStoragePathArg :: nat where "kStoragePathArg = 1"
definition kUniqueIdArg :: nat where "kUniqueIdArg = 2"
definition kRootParentIdArg :: nat where "kRootParentIdArg = 3"
definition kDriveNameArg :: nat where "kDriveNameArg = 4"
definition kCreateStoreArg :: nat where "kCreateStoreArg = 5"
definition kMaxArgIndex :: nat where "kMaxArgIndex = 6"

text \<open>
  The named shared-memory objects of the machine: a name is registered with the strings
  written by \<^verbatim>\<open>ipc::CreateSharedMemory\<close>, or as the region holding a \<^verbatim>\<open>MountStatus\<close>.
\<close>

datatype shm_object = StringVector "string list" | MountStatusRegion

type_synonym shared_memory = "string \<rightharpoonup> shm_object"

text \<open>
  Modelled from the spec: \<^verbatim>\<open>ipc::CreateSharedMemory\<close>, \<^verbatim>\<open>ipc::ReadSharedMemory\<close> and
  \<^verbatim>\<open>ipc::RemoveSharedMemory\<close> are functions of MaidSafe-Common, not among the sources.
  The spec (4.1): creating fails with \<open>ResourceUnavailable\<close> when the name is in use;
  reading copies the values out and fails with \<open>NotFound\<close> when the name does not
  exist; removing is idempotent and never raises. Reading \<open>number\<close> strings from a
  segment that holds fewer is an error here.
\<close>

definition ipc_CreateSharedMemory ::
    "string \<Rightarrow> string list \<Rightarrow> shared_memory \<Rightarrow> error + shared_memory" where
  "ipc_CreateSharedMemory name items m =
     (case m name of
        Some _ \<Rightarrow> Inl ResourceUnavailable
      | None \<Rightarrow> Inr (m(name \<mapsto> StringVector items)))"

definition ipc_ReadSharedMemory ::
    "string \<Rightarrow> nat \<Rightarrow> shared_memory \<Rightarrow> error + string list" where
  "ipc_ReadSharedMemory name number m =
     (case m name of
        Some (StringVector items) \<Rightarrow>
          if number \<le> length items then Inr (take number items) else Inl std_out_of_range
      | _ \<Rightarrow> Inl NotFound)"

definition ipc_RemoveSharedMemory :: "string \<Rightarrow> shared_memory \<Rightarrow> shared_memory" where
  "ipc_RemoveSharedMemory name m = m(name := None)"

text \<open>
  \<^verbatim>\<open>std::stoi\<close>: white space, an optional sign, decimal digits; \<^verbatim>\<open>std::invalid_argument\<close>
  when there is no digit, \<^verbatim>\<open>std::out_of_range\<close> when the value is no 32-bit \<^verbatim>\<open>int\<close>.
\<close>

definition isspace :: "char \<Rightarrow> bool" where
  "isspace c = (of_char c \<in> {9, 10, 11, 12, 13, 32 :: nat})"

definition isdigit :: "char \<Rightarrow> bool" where
  "isdigit c = (48 \<le> (of_char c :: nat) \<and> (of_char c :: nat) \<le> 57)"

fun decimal :: "int \<Rightarrow> string \<Rightarrow> int" where
  "decimal acc [] = acc"
| "decimal acc (c # cs) = decimal (10 * acc + (of_char c - 48)) cs"

definition stoi :: "string \<Rightarrow> error + int" where
  "stoi str =
     (let t = dropWhile isspace str;
          negative = (t \<noteq> [] \<and> hd t = CHR ''-'');
          u = (if t \<noteq> [] \<and> (hd t = CHR ''-'' \<or> hd t = CHR ''+'') then tl t else t);
          ds = takeWhile isdigit u;
          v = (if negative then - decimal 0 ds else decimal 0 ds)
      in if ds = [] then Inl std_invalid_argument
         else if v < - (2 ^ 31) \<or> 2 ^ 31 - 1 < v then Inl std_out_of_range
         else Inr v)"

subsection \<open>ReadAndRemoveInitialSharedMemory (called by the child process)\<close>

text \<open>
  The function assigns the fields of \<open>options\<close> one after the other, so an exception
  leaves the fields assigned before it: the error comes with the options as they are
  then, and the segment is not removed.
\<close>

definition ReadAndRemoveInitialSharedMemory ::
    "(string \<Rightarrow> string) \<Rightarrow> string \<Rightarrow> Options \<Rightarrow> shared_memory
      \<Rightarrow> (error \<times> Options) + (Options \<times> shared_memory)" where
  "ReadAndRemoveInitialSharedMemory sha512 initial_shared_memory_name options m =
     (case ipc_ReadSharedMemory initial_shared_memory_name kMaxArgIndex m of
        Inl e \<Rightarrow> Inl (e, options)
      | Inr shared_memory_args \<Rightarrow>
          let o1 = options\<lparr>mount_path := shared_memory_args ! kMountPathArg,
                           storage_path := shared_memory_args ! kStoragePathArg\<rparr> in
          (case Identity_ctor (shared_memory_args ! kUniqueIdArg) of
             Inl e \<Rightarrow> Inl (e, o1)
           | Inr uid \<Rightarrow>
               let o2 = o1\<lparr>unique_id := uid\<rparr> in
               (case Identity_ctor (shared_memory_args ! kRootParentIdArg) of
                  Inl e \<Rightarrow> Inl (e, o2)
                | Inr rid \<Rightarrow>
                    let o3 = o2\<lparr>root_parent_id := rid,
                                 drive_name := shared_memory_args ! kDriveNameArg\<rparr> in
                    (case stoi (shared_memory_args ! kCreateStoreArg) of
                       Inl e \<Rightarrow> Inl (e, o3)
                     | Inr n \<Rightarrow>
                         Inr (o3\<lparr>create_store := (n \<noteq> 0),
                                  mount_status_shared_object_name :=
                                    GetMountStatusSharedMemoryName sha512 initial_shared_memory_name\<rparr>,
                              ipc_RemoveSharedMemory initial_shared_memory_name m)))))"

subsection \<open>The mount status, the child process and the launcher\<close>

text \<open>
  Modelled from the spec: \<^verbatim>\<open>struct MountStatus\<close> is declared in launcher.h, not among
  the sources: a mutex, a condition variable and the flags \<open>mounted\<close> and \<open>unmount\<close>,
  both false at first. The model keeps the flags; every access of launcher.cc is made
  under the mutex, and the model runs one side at a time. Locking the mutex and
  notifying the condition variable are taken to succeed.
\<close>

record MountStatus =
  mounted :: bool
  unmount :: bool

text \<open>
  \<^verbatim>\<open>DoNotifyMountStatus\<close>, which the child calls through
  \<^verbatim>\<open>NotifyMountedAndWaitForUnmountRequest\<close> and \<^verbatim>\<open>NotifyUnmounted\<close>: what it writes to
  the region (\<^verbatim>\<open>mount_status->mounted = mount_and_wait\<close>). Its wait for \<open>unmount\<close>
  blocks the child, not the launcher.
\<close>

definition DoNotifyMountStatus :: "bool \<Rightarrow> MountStatus \<Rightarrow> MountStatus" where
  "DoNotifyMountStatus mount_and_wait mount_status = mount_status\<lparr>mounted := mount_and_wait\<rparr>"

definition NotifyMountedAndWaitForUnmountRequest :: "MountStatus \<Rightarrow> MountStatus" where
  "NotifyMountedAndWaitForUnmountRequest = DoNotifyMountStatus True"

definition NotifyUnmounted :: "MountStatus \<Rightarrow> MountStatus" where
  "NotifyUnmounted = DoNotifyMountStatus False"

text \<open>
  \<^verbatim>\<open>condition.timed_wait(lock, timeout, pred)\<close> of Boost.Interprocess:
  \<^verbatim>\<open>while (!pred()) { if (!timed_wait(lock, timeout)) return pred(); } return true;\<close>
  The predicate is tested first, so a wait whose predicate holds already returns true
  without waiting. Otherwise the other process either writes to the region before the
  deadline (\<open>Some f\<close>) or does not (\<open>None\<close>).
\<close>

definition timed_wait ::
    "(MountStatus \<Rightarrow> bool) \<Rightarrow> (MountStatus \<Rightarrow> MountStatus) option \<Rightarrow> MountStatus
      \<Rightarrow> bool \<times> MountStatus" where
  "timed_wait pred other_side mount_status =
     (if pred mount_status then (True, mount_status)
      else (case other_side of
              None \<Rightarrow> (False, mount_status)
            | Some f \<Rightarrow> (pred (f mount_status), f mount_status)))"

text \<open>The child process, as the operating system sees it.\<close>

datatype process = NoProcess | Running | Exited int | Terminated

text \<open>
  \<^verbatim>\<open>bp::wait_for_exit(child, error_code)\<close> of Boost.Process takes no timeout: it blocks
  until the process has exited. \<open>None\<close> is the call that never returns, for a running
  process that never exits; otherwise the result is whether \<open>error_code\<close> is set, and the
  process afterwards. Waiting for something that is not a running process sets the
  error code.
\<close>

definition wait_for_exit :: "int option \<Rightarrow> process \<Rightarrow> (bool \<times> process) option" where
  "wait_for_exit exit_code p =
     (case p of
        Running \<Rightarrow> (case exit_code of None \<Rightarrow> None | Some c \<Rightarrow> Some (False, Exited c))
      | _ \<Rightarrow> Some (True, p))"

text \<open>\<^verbatim>\<open>bp::terminate(child, error_code)\<close> kills a running process and never throws.\<close>

definition terminate :: "process \<Rightarrow> process" where
  "terminate p = (case p of Running \<Rightarrow> Terminated | _ \<Rightarrow> p)"

text \<open>
  What launcher.cc does not decide: the random name, the hash, the directory of the
  executables, whether the operating system starts the process, and what the child does
  while the launcher waits. \<open>child_notifies_mounted\<close> is the child signalling "mounted"
  before the deadline of \<open>WaitForDriveToMount\<close>; \<open>child_notifies_mounted_late\<close> is the
  child signalling it after that wait has given up and released the mutex, before the
  cleanup of the constructor takes the mutex again.
\<close>

record env =
  RandomAlphaNumericString :: string
  SHA512 :: "string \<Rightarrow> string"
  GetOtherExecutablePath :: "string \<Rightarrow> string"
  execute_succeeds :: "string \<Rightarrow> string list \<Rightarrow> bool"
  child_reads_initial_shared_memory :: bool
  child_notifies_mounted :: bool
  child_notifies_mounted_late :: bool
  child_notifies_unmounted :: bool
  child_exit_code :: "int option"

text \<open>
  The members of a \<open>Launcher\<close>, a member \<^verbatim>\<open>x_\<close> of the class being written \<open>x_m\<close>
  (\<open>mount_status_m\<close> is \<open>None\<close> for \<^verbatim>\<open>nullptr\<close>, \<open>drive_process_m\<close> is true when
  the pointer is not null), with the two things outside
  the object that its functions change: the shared-memory names and the child process.
  \<open>kMountPath_\<close> and the two Boost handles of the region are left out: no function here
  reads them.
\<close>

record Launcher =
  initial_shared_memory_name_m :: string
  mount_status_m :: "MountStatus option"
  drive_process_m :: bool
  shm :: shared_memory
  child :: process

text \<open>
  How a member function ends: it returns, it throws, it dereferences a null
  \<open>mount_status_m\<close> (undefined behaviour, which no \<^verbatim>\<open>catch\<close> stops), or it blocks for ever.
\<close>

datatype outcome =
    Returns Launcher
  | Throws error Launcher
  | NullDereference
  | BlocksForever

fun and_then :: "outcome \<Rightarrow> (Launcher \<Rightarrow> outcome) \<Rightarrow> outcome" where
  "and_then (Returns s) f = f s"
| "and_then (Throws e s) f = Throws e s"
| "and_then NullDereference f = NullDereference"
| "and_then BlocksForever f = BlocksForever"

definition CreateInitialSharedMemory :: "Options \<Rightarrow> Launcher \<Rightarrow> outcome" where
  "CreateInitialSharedMemory options s =
     (let shared_memory_args = (replicate kMaxArgIndex [])
            [kMountPathArg := mount_path options,
             kStoragePathArg := storage_path options,
             kUniqueIdArg := unique_id options,
             kRootParentIdArg := root_parent_id options,
             kDriveNameArg := drive_name options,
             kCreateStoreArg := (if create_store options then ''1'' else ''0'')]
      in case ipc_CreateSharedMemory (initial_shared_memory_name_m s) shared_memory_args (shm s) of
           Inl e \<Rightarrow> Throws e s
         | Inr m \<Rightarrow> Returns (s\<lparr>shm := m\<rparr>))"

text \<open>
  \<^verbatim>\<open>bi::shared_memory_object(bi::create_only, ...)\<close> throws when the name exists (the
  spec's \<open>ResourceUnavailable\<close>); the placement \<^verbatim>\<open>new\<close> constructs the flags.
\<close>

definition CreateMountStatusSharedMemory :: "env \<Rightarrow> Launcher \<Rightarrow> outcome" where
  "CreateMountStatusSharedMemory e s =
     (let name = GetMountStatusSharedMemoryName (SHA512 e) (initial_shared_memory_name_m s) in
      case shm s name of
        Some _ \<Rightarrow> Throws ResourceUnavailable s
      | None \<Rightarrow> Returns (s\<lparr>shm := (shm s)(name \<mapsto> MountStatusRegion),
                            mount_status_m := Some \<lparr>mounted = False, unmount = False\<rparr>\<rparr>))"

text \<open>
  \<open>drive_process_m\<close> is assigned before \<open>error_code\<close> is tested, so it is not null when
  \<open>uninitialised\<close> is thrown. A child that starts may read and remove the initial
  shared memory at once.
\<close>

definition StartDriveProcess :: "env \<Rightarrow> Options \<Rightarrow> Launcher \<Rightarrow> outcome" where
  "StartDriveProcess e options s =
     (case GetDriveExecutablePath (GetOtherExecutablePath e) (drive_type options) of
        Inl err \<Rightarrow> Throws err s
      | Inr kExePath \<Rightarrow>
          let process_args =
                [kExePath, ''--shared_memory '' @ initial_shared_memory_name_m s] @
                (if drive_logging_args options \<noteq> [] then [drive_logging_args options] else [])
          in if execute_succeeds e kExePath process_args
             then Returns (s\<lparr>drive_process_m := True, child := Running,
                    shm := (if child_reads_initial_shared_memory e
                            then ipc_RemoveSharedMemory (initial_shared_memory_name_m s) (shm s)
                            else shm s)\<rparr>)
             else Throws CommonErrors_uninitialised (s\<lparr>drive_process_m := True\<rparr>))"

text \<open>
  What the child does to the region while the launcher waits: a running child that
  notifies before the deadline calls \<open>notify\<close>; otherwise nothing is written.
\<close>

definition child_calls ::
    "Launcher \<Rightarrow> bool \<Rightarrow> (MountStatus \<Rightarrow> MountStatus) \<Rightarrow> (MountStatus \<Rightarrow> MountStatus) option" where
  "child_calls s in_time notify = (if child s = Running \<and> in_time then Some notify else None)"

definition WaitForDriveToMount :: "env \<Rightarrow> Launcher \<Rightarrow> outcome" where
  "WaitForDriveToMount e s =
     (case mount_status_m s of
        None \<Rightarrow> NullDereference
      | Some mount_status \<Rightarrow>
          (case timed_wait mounted
                  (child_calls s (child_notifies_mounted e) NotifyMountedAndWaitForUnmountRequest)
                  mount_status of
             (ok, mount_status') \<Rightarrow>
               if \<not> ok
               then Throws DriveErrors_failed_to_mount (s\<lparr>mount_status_m := Some mount_status'\<rparr>)
               else Returns (s\<lparr>mount_status_m := Some mount_status'\<rparr>)))"

definition StopDriveProcess :: "env \<Rightarrow> Launcher \<Rightarrow> outcome" where
  "StopDriveProcess e s =
     (if \<not> drive_process_m s then Returns s
      else (case mount_status_m s of
              None \<Rightarrow> NullDereference
            | Some mount_status \<Rightarrow>
                (case timed_wait (\<lambda>ms. \<not> mounted ms)
                        (child_calls s (child_notifies_unmounted e) NotifyUnmounted)
                        (mount_status\<lparr>unmount := True\<rparr>) of
                   (ok, mount_status') \<Rightarrow>
                     if \<not> ok
                     then Returns (s\<lparr>mount_status_m := Some mount_status',
                                     child := terminate (child s),
                                     drive_process_m := False\<rparr>)
                     else (case wait_for_exit (child_exit_code e) (child s) of
                             None \<Rightarrow> BlocksForever
                           | Some (error_code, p) \<Rightarrow>
                               Returns (s\<lparr>mount_status_m := Some mount_status',
                                          child := p,
                                          drive_process_m := False\<rparr>)))))"

text \<open>
  The constructor. \<open>cleanup_on_throw\<close> runs \<open>StopDriveProcess\<close> when one of the four
  steps throws, catches what that throws, and the exception of the step goes on to the
  caller. Nothing else runs then: the destructor of an object whose constructor threw
  is not called.

  The step that threw has released the mutex (the \<^verbatim>\<open>scoped_lock\<close> of
  \<open>WaitForDriveToMount\<close> is destroyed by the throw) and \<open>StopDriveProcess\<close> locks it
  again, so a running child can signal "mounted" in between: \<open>late_notification\<close>.
\<close>

definition late_notification :: "env \<Rightarrow> Launcher \<Rightarrow> Launcher" where
  "late_notification e s =
     (case mount_status_m s of
        None \<Rightarrow> s
      | Some mount_status \<Rightarrow>
          (case child_calls s (child_notifies_mounted_late e)
                  NotifyMountedAndWaitForUnmountRequest of
             None \<Rightarrow> s
           | Some notify \<Rightarrow> s\<lparr>mount_status_m := Some (notify mount_status)\<rparr>))"

definition construction_steps :: "env \<Rightarrow> Options \<Rightarrow> Launcher \<Rightarrow> outcome" where
  "construction_steps e options s =
     and_then (and_then (and_then (CreateInitialSharedMemory options s)
       (CreateMountStatusSharedMemory e)) (StartDriveProcess e options)) (WaitForDriveToMount e)"

definition cleanup_on_throw :: "env \<Rightarrow> outcome \<Rightarrow> outcome" where
  "cleanup_on_throw e r =
     (case r of
        Throws err s \<Rightarrow>
          (case StopDriveProcess e (late_notification e s) of
             Returns s' \<Rightarrow> Throws err s'
           | Throws err' s' \<Rightarrow> Throws err s'
           | NullDereference \<Rightarrow> NullDereference
           | BlocksForever \<Rightarrow> BlocksForever)
      | _ \<Rightarrow> r)"

text \<open>
  The member initialisers: a fresh random name, null pointers. \<open>m\<close> is the shared
  memory of the machine when the constructor starts; the child does not exist yet.
\<close>

definition member_initialisers :: "env \<Rightarrow> shared_memory \<Rightarrow> Launcher" where
  "member_initialisers e m =
     \<lparr>initial_shared_memory_name_m = RandomAlphaNumericString e,
      mount_status_m = None,
      drive_process_m = False,
      shm = m,
      child = NoProcess\<rparr>"

definition Launcher_ctor :: "env \<Rightarrow> Options \<Rightarrow> shared_memory \<Rightarrow> outcome" where
  "Launcher_ctor e options m =
     cleanup_on_throw e (construction_steps e options (member_initialisers e m))"

text \<open>
  The destructor: what \<open>StopDriveProcess\<close> throws is caught, then both names are
  removed (\<^verbatim>\<open>bi::shared_memory_object::remove\<close> returns a flag and never throws).
\<close>

definition remove_names :: "env \<Rightarrow> Launcher \<Rightarrow> Launcher" where
  "remove_names e s =
     s\<lparr>shm := (ipc_RemoveSharedMemory (initial_shared_memory_name_m s) (shm s))
         (GetMountStatusSharedMemoryName (SHA512 e) (initial_shared_memory_name_m s) := None)\<rparr>"

definition Launcher_dtor :: "env \<Rightarrow> Launcher \<Rightarrow> outcome" where
  "Launcher_dtor e s =
     (case StopDriveProcess e s of
        Returns s' \<Rightarrow> Returns (remove_names e s')
      | Throws err s' \<Rightarrow> Returns (remove_names e s')
      | NullDereference \<Rightarrow> NullDereference
      | BlocksForever \<Rightarrow> BlocksForever)"

subsection \<open>Concrete inputs\<close>

text \<open>
  The inputs at which the theorems below are instantiated: the options of the spec's
  round-trip example, a stand-in for the hash that returns 64 bytes, a child that does
  everything in time, and the launcher this gives when the child leaves the initial
  shared memory in place.
\<close>

definition example_digest :: "string \<Rightarrow> string" where
  "example_digest s = take 64 (s @ replicate 64 (CHR ''#''))"

definition example_options :: Options where
  "example_options =
     \<lparr>mount_path = ''/tmp/x'', storage_path = ''/tmp/y'',
      unique_id = replicate 64 (CHR ''u''), root_parent_id = replicate 64 (CHR ''r''),
      drive_name = ''MyDrive'', create_store = True, drive_type = kLocal,
      drive_logging_args = [], mount_status_shared_object_name = []\<rparr>"

definition example_env :: env where
  "example_env =
     \<lparr>RandomAlphaNumericString = ''abcdefghijklmnopqrstuvwxyz012345'',
      SHA512 = example_digest,
      GetOtherExecutablePath = (\<lambda>name. ''/usr/bin/'' @ name),
      execute_succeeds = (\<lambda>exe args. True),
      child_reads_initial_shared_memory = False,
      child_notifies_mounted = True,
      child_notifies_mounted_late = False,
      child_notifies_unmounted = True,
      child_exit_code = Some 0\<rparr>"

definition example_args :: "string list" where
  "example_args =
     [''/tmp/x'', ''/tmp/y'', replicate 64 (CHR ''u''), replicate 64 (CHR ''r''), ''MyDrive'', ''1'']"

definition example_mounted :: Launcher where
  "example_mounted =
     \<lparr>initial_shared_memory_name_m = ''abcdefghijklmnopqrstuvwxyz012345'',
      mount_status_m = Some \<lparr>mounted = True, unmount = False\<rparr>,
      drive_process_m = True,
      shm = [''abcdefghijklmnopqrstuvwxyz012345'' \<mapsto> StringVector example_args,
             ''6162636465666768696a6b6c6d6e6f70'' \<mapsto> MountStatusRegion],
      child = Running\<rparr>"

section \<open>Facts about the model\<close>

subsection \<open>The loop of GetNextAvailableDrivePath\<close>

lemma and_push_bit_iff_bit: "((w :: 32 word) AND push_bit i 1 \<noteq> 0) = bit w i"
  by (simp add: bit_iff_and_push_bit_not_eq_0)

lemma drive_letter_loop_stop:
  "\<not> bit dl i \<Longrightarrow> drive_letter_loop dl (push_bit i 1) c = c"
  by (subst drive_letter_loop.simps) (simp only: and_push_bit_iff_bit if_False)

lemma drive_letter_loop_step:
  "bit dl i \<Longrightarrow>
    drive_letter_loop dl (push_bit i 1) c = drive_letter_loop dl (push_bit (Suc i) 1) (c + 1)"
  by (subst drive_letter_loop.simps)
    (simp only: and_push_bit_iff_bit if_True push_bit_push_bit Suc_eq_plus1_left add.commute)

text \<open>
  Started at bit \<open>i\<close>, the loop stops at the first clear bit from \<open>i\<close> upwards and has
  counted the set bits before it. A 32-bit word has no bit 32, so there is one.
\<close>

lemma drive_letter_loop_first_clear:
  "\<exists>k. drive_letter_loop dl (push_bit i 1) c = c + k \<and> \<not> bit dl (i + k) \<and> (\<forall>j<k. bit dl (i + j))"
proof (induction "32 - i" arbitrary: i c rule: less_induct)
  case less
  show ?case
  proof (cases "bit dl i")
    case False
    then show ?thesis using drive_letter_loop_stop [of dl i c] by (intro exI [of _ 0]) simp
  next
    case True
    then have "i < 32" by (auto dest: bit_imp_le_length)
    then have "32 - Suc i < 32 - i" by simp
    from less [OF this] obtain k where
      k: "drive_letter_loop dl (push_bit (Suc i) 1) (c + 1) = c + 1 + k"
        "\<not> bit dl (Suc i + k)" "\<forall>j<k. bit dl (Suc i + j)" by blast
    have "drive_letter_loop dl (push_bit i 1) c = c + Suc k"
      using drive_letter_loop_step [OF True, of c] k(1) by simp
    moreover have "\<not> bit dl (i + Suc k)" using k(2) by simp
    moreover have "\<forall>j<Suc k. bit dl (i + j)"
    proof (intro allI impI)
      fix j assume "j < Suc k"
      then show "bit dl (i + j)" using True k(3) by (cases j) auto
    qed
    ultimately show ?thesis by blast
  qed
qed

lemma drive_letter_loop_from_C:
  obtains k where "drive_letter_loop dl 4 67 = 67 + k"
    "\<not> bit dl (2 + k)" "\<forall>j<k. bit dl (2 + j)"
  using drive_letter_loop_first_clear [of dl 2 67] by auto

lemma drive_letter_loop_le: "drive_letter_loop dl 0x4 (of_char CHR ''C'') \<le> 97"
proof -
  obtain k where k: "drive_letter_loop dl 4 67 = 67 + k" "\<forall>j<k. bit dl (2 + j)"
    by (rule drive_letter_loop_from_C)
  have "k \<le> 30"
  proof (rule ccontr)
    assume "\<not> k \<le> 30"
    then have "30 < k" by simp
    with k(2) have "bit dl (2 + 30)" by blast
    then show False by (auto dest: bit_imp_le_length)
  qed
  then show ?thesis using k(1) by simp
qed

subsection \<open>Hex encoding\<close>

lemma HexEncode_Nil: "HexEncode [] = []"
  by (simp add: HexEncode_def)

lemma HexEncode_Cons:
  "HexEncode (x # xs) =
     [kHexAlphabet ! (of_char x div 16), kHexAlphabet ! (of_char x mod 16)] @ HexEncode xs"
  by (simp add: HexEncode_def)

lemma length_HexEncode: "length (HexEncode xs) = 2 * length xs"
  by (induction xs) (simp_all add: HexEncode_Nil HexEncode_Cons)

lemma take_HexEncode: "take (2 * n) (HexEncode xs) = HexEncode (take n xs)"
proof (induction xs arbitrary: n)
  case Nil
  then show ?case by (simp add: HexEncode_Nil)
next
  case (Cons x xs)
  then show ?case by (cases n) (simp_all add: HexEncode_Cons HexEncode_Nil)
qed

lemma hex_digit: "n < 16 \<Longrightarrow> kHexAlphabet ! n \<in> set kHexAlphabet"
  by (rule nth_mem) (simp add: kHexAlphabet_def)

lemma of_char_less_256: "(of_char c :: nat) < 256"
proof -
  have "(of_char c :: nat) mod 256 < 256" by (rule mod_less_divisor) simp
  then show ?thesis by (simp only: of_char_mod_256)
qed

lemma set_HexEncode: "set (HexEncode xs) \<subseteq> set kHexAlphabet"
proof (induction xs)
  case Nil
  then show ?case by (simp add: HexEncode_Nil)
next
  case (Cons x xs)
  have "(of_char x :: nat) div 16 < 16"
    using of_char_less_256 [of x] by arith
  moreover have "(of_char x :: nat) mod 16 < 16" by simp
  ultimately show ?case using Cons hex_digit by (simp add: HexEncode_Cons)
qed

subsection \<open>The initial shared memory\<close>

lemmas arg_index_defs = kMaxArgIndex_def kMountPathArg_def kStoragePathArg_def kUniqueIdArg_def
    kRootParentIdArg_def kDriveNameArg_def kCreateStoreArg_def

lemma shared_memory_args_list:
  "(replicate kMaxArgIndex [])
     [kMountPathArg := a, kStoragePathArg := b, kUniqueIdArg := c, kRootParentIdArg := d,
      kDriveNameArg := f, kCreateStoreArg := g] = [a, b, c, d, f, g]"
  by (simp add: arg_index_defs eval_nat_numeral)

lemma stoi_1: "stoi ''1'' = Inr 1"
  by (simp add: stoi_def isspace_def isdigit_def)

lemma stoi_0: "stoi ''0'' = Inr 0"
  by (simp add: stoi_def isspace_def isdigit_def)

lemma stoi_create_store: "stoi (if b then ''1'' else ''0'') = Inr (if b then 1 else 0)"
  by (simp add: stoi_1 stoi_0)

lemma CreateInitialSharedMemory_Returns:
  assumes "CreateInitialSharedMemory options s = Returns s'"
  shows "shm s (initial_shared_memory_name_m s) = None"
    and "s' = s\<lparr>shm := (shm s)(initial_shared_memory_name_m s \<mapsto>
            StringVector [mount_path options, storage_path options, unique_id options,
              root_parent_id options, drive_name options,
              if create_store options then ''1'' else ''0''])\<rparr>"
  using assms
  by (auto simp: CreateInitialSharedMemory_def ipc_CreateSharedMemory_def shared_memory_args_list
      split: option.splits)

lemma read_written:
  assumes "m name = Some (StringVector [mp, sp, uid, rid, dn, flag])"
    and "length uid = 64" and "length rid = 64" and "flag = (if cs then ''1'' else ''0'')"
  shows "ReadAndRemoveInitialSharedMemory H name options m =
     Inr (options\<lparr>mount_path := mp, storage_path := sp, unique_id := uid, root_parent_id := rid,
            drive_name := dn, create_store := cs,
            mount_status_shared_object_name := GetMountStatusSharedMemoryName H name\<rparr>,
          m(name := None))"
  using assms
  by (simp add: ReadAndRemoveInitialSharedMemory_def ipc_ReadSharedMemory_def
      ipc_RemoveSharedMemory_def arg_index_defs Identity_ctor_def stoi_create_store Let_def)

lemma example_name:
  "GetMountStatusSharedMemoryName example_digest ''abcdefghijklmnopqrstuvwxyz012345''
     = ''6162636465666768696a6b6c6d6e6f70''"
  by (simp add: GetMountStatusSharedMemoryName_def example_digest_def HexEncode_def kHexAlphabet_def)

subsection \<open>The steps of the constructor and StopDriveProcess\<close>

lemmas step_defs = Launcher_ctor_def cleanup_on_throw_def late_notification_def
    construction_steps_def member_initialisers_def
    CreateInitialSharedMemory_def CreateMountStatusSharedMemory_def StartDriveProcess_def
    WaitForDriveToMount_def StopDriveProcess_def Launcher_dtor_def remove_names_def
    ipc_CreateSharedMemory_def ipc_RemoveSharedMemory_def shared_memory_args_list
    GetDriveExecutablePath_def kLocal_def kLocalConsole_def kNetwork_def kNetworkConsole_def
    timed_wait_def child_calls_def NotifyMountedAndWaitForUnmountRequest_def NotifyUnmounted_def
    DoNotifyMountStatus_def wait_for_exit_def terminate_def

lemmas example_defs = example_env_def example_options_def example_mounted_def example_args_def
    example_name

lemma StopDriveProcess_null_handle: "\<not> drive_process_m s \<Longrightarrow> StopDriveProcess e s = Returns s"
  by (simp add: StopDriveProcess_def)

lemma StopDriveProcess_not_NullDereference:
  "mount_status_m s \<noteq> None \<or> \<not> drive_process_m s \<Longrightarrow> StopDriveProcess e s \<noteq> NullDereference"
  by (auto simp: StopDriveProcess_def split: option.splits prod.splits)

lemma late_notification_no_child: "child s \<noteq> Running \<Longrightarrow> late_notification e s = s"
  by (simp add: late_notification_def child_calls_def split: option.splits)

lemma late_notification_keeps:
  "drive_process_m (late_notification e s) = drive_process_m s"
  "child (late_notification e s) = child s"
  "(mount_status_m (late_notification e s) = None) = (mount_status_m s = None)"
  by (simp_all add: late_notification_def child_calls_def split: option.splits)

lemma cleanup_on_throw_null_handle:
  "\<not> drive_process_m s \<Longrightarrow> child s \<noteq> Running \<Longrightarrow>
     cleanup_on_throw e (Throws err s) = Throws err s"
  by (simp add: cleanup_on_throw_def late_notification_no_child StopDriveProcess_null_handle)

lemma CreateInitialSharedMemory_Throws:
  "CreateInitialSharedMemory options s = Throws err s' \<Longrightarrow> s' = s"
  by (auto simp: CreateInitialSharedMemory_def Let_def split: sum.splits)

lemma CreateInitialSharedMemory_not_others:
  "CreateInitialSharedMemory options s \<noteq> NullDereference"
  "CreateInitialSharedMemory options s \<noteq> BlocksForever"
  by (auto simp: CreateInitialSharedMemory_def Let_def split: sum.splits)

lemma CreateInitialSharedMemory_keeps:
  "CreateInitialSharedMemory options s = Returns s' \<Longrightarrow>
     mount_status_m s' = mount_status_m s \<and> drive_process_m s' = drive_process_m s
     \<and> child s' = child s"
  by (auto simp: CreateInitialSharedMemory_def Let_def split: sum.splits)

lemma CreateMountStatusSharedMemory_Throws:
  "CreateMountStatusSharedMemory e s = Throws err s' \<Longrightarrow> s' = s"
  by (auto simp: CreateMountStatusSharedMemory_def Let_def split: option.splits)

lemma CreateMountStatusSharedMemory_not_others:
  "CreateMountStatusSharedMemory e s \<noteq> NullDereference"
  "CreateMountStatusSharedMemory e s \<noteq> BlocksForever"
  by (auto simp: CreateMountStatusSharedMemory_def Let_def split: option.splits)

lemma CreateMountStatusSharedMemory_Returns:
  "CreateMountStatusSharedMemory e s = Returns s' \<Longrightarrow>
     mount_status_m s' = Some \<lparr>mounted = False, unmount = False\<rparr>
     \<and> drive_process_m s' = drive_process_m s \<and> child s' = child s"
  by (auto simp: CreateMountStatusSharedMemory_def Let_def split: option.splits)

lemma StartDriveProcess_keeps:
  "StartDriveProcess e options s = Throws err s' \<or> StartDriveProcess e options s = Returns s'
    \<Longrightarrow> mount_status_m s' = mount_status_m s"
  by (auto simp: StartDriveProcess_def Let_def split: sum.splits if_splits)

lemma StartDriveProcess_not_others:
  "StartDriveProcess e options s \<noteq> NullDereference"
  "StartDriveProcess e options s \<noteq> BlocksForever"
  by (auto simp: StartDriveProcess_def Let_def split: sum.splits)

lemma StartDriveProcess_invalid:
  "GetDriveExecutablePath (GetOtherExecutablePath e) (drive_type options) = Inl err \<Longrightarrow>
     StartDriveProcess e options s = Throws err s"
  by (simp add: StartDriveProcess_def)

lemma WaitForDriveToMount_not_NullDereference:
  "mount_status_m s \<noteq> None \<Longrightarrow> WaitForDriveToMount e s \<noteq> NullDereference"
  by (auto simp: WaitForDriveToMount_def split: option.splits prod.splits)

lemma WaitForDriveToMount_Throws:
  "WaitForDriveToMount e s = Throws err s' \<Longrightarrow> mount_status_m s' \<noteq> None"
  by (auto simp: WaitForDriveToMount_def split: option.splits prod.splits if_splits)

lemma construction_steps_safe:
  "construction_steps e options (member_initialisers e m) \<noteq> NullDereference
   \<and> (\<forall>err s. construction_steps e options (member_initialisers e m) = Throws err s \<longrightarrow>
         mount_status_m s \<noteq> None \<or> \<not> drive_process_m s)"
proof -
  let ?s0 = "member_initialisers e m"
  have s0: "\<not> drive_process_m ?s0" by (simp add: member_initialisers_def)
  show ?thesis
  proof (cases "CreateInitialSharedMemory options ?s0")
    case (Throws err s)
    then show ?thesis
      using s0 CreateInitialSharedMemory_Throws [OF Throws]
      by (simp add: construction_steps_def)
  next
    case NullDereference
    then show ?thesis using CreateInitialSharedMemory_not_others by blast
  next
    case BlocksForever
    then show ?thesis by (simp add: construction_steps_def)
  next
    case (Returns s1)
    note k1 = CreateInitialSharedMemory_keeps [OF Returns]
    show ?thesis
    proof (cases "CreateMountStatusSharedMemory e s1")
      case (Throws err s)
      then show ?thesis
        using s0 k1 Returns CreateMountStatusSharedMemory_Throws [OF Throws]
        by (simp add: construction_steps_def)
    next
      case NullDereference
      then show ?thesis using CreateMountStatusSharedMemory_not_others by blast
    next
      case BlocksForever
      then show ?thesis using Returns by (simp add: construction_steps_def)
    next
      case r2: (Returns s2)
      note k2 = CreateMountStatusSharedMemory_Returns [OF r2]
      show ?thesis
      proof (cases "StartDriveProcess e options s2")
        case (Throws err s)
        then show ?thesis
          using Returns r2 k2 StartDriveProcess_keeps [of e options s2 err s]
          by (simp add: construction_steps_def)
      next
        case NullDereference
        then show ?thesis using StartDriveProcess_not_others by blast
      next
        case BlocksForever
        then show ?thesis using Returns r2 by (simp add: construction_steps_def)
      next
        case r3: (Returns s3)
        have ms3: "mount_status_m s3 \<noteq> None"
          using k2 StartDriveProcess_keeps [of e options s2 _ s3] r3 by simp
        have eq: "construction_steps e options ?s0 = WaitForDriveToMount e s3"
          using Returns r2 r3 by (simp add: construction_steps_def)
        show ?thesis
          using WaitForDriveToMount_not_NullDereference [OF ms3, of e]
            WaitForDriveToMount_Throws [of e s3]
          by (auto simp: eq)
      qed
    qed
  qed
qed

lemma Launcher_ctor_not_NullDereference: "Launcher_ctor e options m \<noteq> NullDereference"
proof (cases "construction_steps e options (member_initialisers e m)")
  case (Throws err s)
  then have "mount_status_m s \<noteq> None \<or> \<not> drive_process_m s"
    using construction_steps_safe [of e options m] by blast
  then have "mount_status_m (late_notification e s) \<noteq> None
      \<or> \<not> drive_process_m (late_notification e s)"
    by (simp add: late_notification_keeps)
  from StopDriveProcess_not_NullDereference [OF this, of e] show ?thesis
    by (cases "StopDriveProcess e (late_notification e s)")
      (simp_all add: Launcher_ctor_def Throws cleanup_on_throw_def)
next
  case NullDereference
  then show ?thesis using construction_steps_safe [of e options m] by blast
qed (simp_all add: Launcher_ctor_def cleanup_on_throw_def)

text \<open>
  The launcher of the examples is the one the constructor returns for the example
  options on a machine with no shared memory registered.
\<close>

lemma example_mounted_constructed:
  "Launcher_ctor example_env example_options Map.empty = Returns example_mounted"
  by (simp add: step_defs example_defs)

text \<open>
  A constructor that throws leaves no running child and a null handle.
\<close>

lemma StopDriveProcess_Returns_stopped:
  assumes "StopDriveProcess e s = Returns s'" and "child s = Running \<longrightarrow> drive_process_m s"
  shows "\<not> drive_process_m s' \<and> child s' \<noteq> Running"
  using assms
  by (auto simp: StopDriveProcess_def wait_for_exit_def terminate_def
      split: if_splits option.splits prod.splits process.splits)

lemma construction_steps_Throws_child:
  assumes "construction_steps e options (member_initialisers e m) = Throws err s"
  shows "child s = Running \<longrightarrow> drive_process_m s"
  using assms
  by (auto simp: construction_steps_def member_initialisers_def CreateInitialSharedMemory_def
      CreateMountStatusSharedMemory_def StartDriveProcess_def WaitForDriveToMount_def
      ipc_CreateSharedMemory_def Let_def
      split: option.splits sum.splits if_splits prod.splits)

lemma failed_construction_stops_child:
  assumes "Launcher_ctor e options m = Throws err s"
  shows "\<not> drive_process_m s \<and> child s \<noteq> Running"
proof -
  from assms obtain err0 s0 where steps: "construction_steps e options (member_initialisers e m) = Throws err0 s0"
    by (cases "construction_steps e options (member_initialisers e m)")
      (simp_all add: Launcher_ctor_def cleanup_on_throw_def)
  with assms obtain s1 where "StopDriveProcess e (late_notification e s0) = Returns s1" and "s = s1"
    by (cases "StopDriveProcess e (late_notification e s0)")
      (auto simp: Launcher_ctor_def cleanup_on_throw_def StopDriveProcess_def
        split: if_splits option.splits prod.splits)
  moreover have "child (late_notification e s0) = Running
      \<longrightarrow> drive_process_m (late_notification e s0)"
    using construction_steps_Throws_child [OF steps] by (simp add: late_notification_keeps)
  ultimately show ?thesis
    using StopDriveProcess_Returns_stopped by blast
qed

section \<open>The claims\<close>

text \<open>
  C4. Round trip of the initial shared memory: for options whose two identities have 64
  bytes, once \<open>CreateInitialSharedMemory\<close> has written the six fields under the
  launcher's name (the flag as "1" or "0"), \<open>ReadAndRemoveInitialSharedMemory\<close> on that
  name succeeds, gives back the same mount path, storage path, unique id, root-parent
  id, drive name and create-store flag, whatever the reader's options held before, and
  leaves no segment under the name.
\<close>

theorem bootstrap_round_trip:
  assumes "length (unique_id options) = 64" and "length (root_parent_id options) = 64"
    and "CreateInitialSharedMemory options s = Returns s'"
  shows "\<exists>options' m'.
      ReadAndRemoveInitialSharedMemory sha512 (initial_shared_memory_name_m s) options0 (shm s')
        = Inr (options', m')
      \<and> mount_path options' = mount_path options
      \<and> storage_path options' = storage_path options
      \<and> unique_id options' = unique_id options
      \<and> root_parent_id options' = root_parent_id options
      \<and> drive_name options' = drive_name options
      \<and> create_store options' = create_store options
      \<and> m' (initial_shared_memory_name_m s) = None
      \<and> shm s' (initial_shared_memory_name_m s) =
          Some (StringVector [mount_path options, storage_path options, unique_id options,
            root_parent_id options, drive_name options,
            if create_store options then ''1'' else ''0''])"
proof -
  let ?name = "initial_shared_memory_name_m s"
  let ?args = "[mount_path options, storage_path options, unique_id options,
            root_parent_id options, drive_name options, if create_store options then ''1'' else ''0'']"
  have stored: "shm s' ?name = Some (StringVector ?args)"
    using CreateInitialSharedMemory_Returns(2) [OF assms(3)] by simp
  show ?thesis
    using read_written [where m = "shm s'" and name = ?name and cs = "create_store options"
        and H = sha512 and options = options0, OF stored assms(1) assms(2) refl] stored
    by simp
qed

theorem bootstrap_round_trip_witness:
  "length (unique_id example_options) = 64 \<and> length (root_parent_id example_options) = 64
   \<and> CreateInitialSharedMemory example_options (member_initialisers example_env Map.empty)
       = Returns ((member_initialisers example_env Map.empty)
           \<lparr>shm := [''abcdefghijklmnopqrstuvwxyz012345'' \<mapsto> StringVector example_args]\<rparr>)
   \<and> (\<exists>options' m'.
      ReadAndRemoveInitialSharedMemory example_digest ''abcdefghijklmnopqrstuvwxyz012345''
          (example_options\<lparr>create_store := False\<rparr>)
          [''abcdefghijklmnopqrstuvwxyz012345'' \<mapsto> StringVector example_args]
        = Inr (options', m')
      \<and> mount_path options' = ''/tmp/x''
      \<and> storage_path options' = ''/tmp/y''
      \<and> unique_id options' = replicate 64 (CHR ''u'')
      \<and> root_parent_id options' = replicate 64 (CHR ''r'')
      \<and> drive_name options' = ''MyDrive''
      \<and> create_store options' = True
      \<and> m' ''abcdefghijklmnopqrstuvwxyz012345'' = None)"
proof -
  let ?s = "member_initialisers example_env Map.empty"
  let ?s' = "?s\<lparr>shm := [''abcdefghijklmnopqrstuvwxyz012345'' \<mapsto> StringVector example_args]\<rparr>"
  have h1: "length (unique_id example_options) = 64" by (simp add: example_options_def)
  have h2: "length (root_parent_id example_options) = 64" by (simp add: example_options_def)
  have h3: "CreateInitialSharedMemory example_options ?s = Returns ?s'"
    by (simp add: CreateInitialSharedMemory_def ipc_CreateSharedMemory_def shared_memory_args_list
        member_initialisers_def example_env_def example_options_def example_args_def)
  from bootstrap_round_trip [OF h1 h2 h3, of example_digest "example_options\<lparr>create_store := False\<rparr>"]
  show ?thesis using h1 h2 h3
    by (auto simp: member_initialisers_def example_env_def example_options_def)
qed

text \<open>
  C5. The name of the mount-status region. For a hash of 64 bytes (SHA-512), the name
  computed from a bootstrap name is the first 32 characters of the hex encoding of the
  hash, that is the hex encoding of its first 16 bytes; it has exactly 32 characters,
  all of them among 0-9 and a-f. Both sides compute the same string: the name the child
  gets from \<open>ReadAndRemoveInitialSharedMemory\<close> is the name under which the launcher's
  \<open>CreateMountStatusSharedMemory\<close> registered the region.
\<close>

theorem GetMountStatusSharedMemoryName_hex:
  assumes "length (SHA512 e name) = 64"
  shows "GetMountStatusSharedMemoryName (SHA512 e) name = take 32 (HexEncode (SHA512 e name))
    \<and> GetMountStatusSharedMemoryName (SHA512 e) name = HexEncode (take 16 (SHA512 e name))
    \<and> length (GetMountStatusSharedMemoryName (SHA512 e) name) = 32
    \<and> set (GetMountStatusSharedMemoryName (SHA512 e) name) \<subseteq> set ''0123456789abcdef''
    \<and> (\<forall>options m options' m'.
          ReadAndRemoveInitialSharedMemory (SHA512 e) name options m = Inr (options', m') \<longrightarrow>
          mount_status_shared_object_name options' = GetMountStatusSharedMemoryName (SHA512 e) name)
    \<and> (\<forall>s s'. initial_shared_memory_name_m s = name
            \<and> CreateMountStatusSharedMemory e s = Returns s' \<longrightarrow>
          shm s (GetMountStatusSharedMemoryName (SHA512 e) name) = None \<and>
          shm s' = (shm s)(GetMountStatusSharedMemoryName (SHA512 e) name \<mapsto> MountStatusRegion))"
proof (intro conjI allI impI)
  show "GetMountStatusSharedMemoryName (SHA512 e) name = take 32 (HexEncode (SHA512 e name))"
    by (simp add: GetMountStatusSharedMemoryName_def)
  show "GetMountStatusSharedMemoryName (SHA512 e) name = HexEncode (take 16 (SHA512 e name))"
    using take_HexEncode [of 16 "SHA512 e name"] by (simp add: GetMountStatusSharedMemoryName_def)
  show "length (GetMountStatusSharedMemoryName (SHA512 e) name) = 32"
    using assms by (simp add: GetMountStatusSharedMemoryName_def length_HexEncode)
  show "set (GetMountStatusSharedMemoryName (SHA512 e) name) \<subseteq> set ''0123456789abcdef''"
    using set_HexEncode [of "SHA512 e name"] set_take_subset [of 32 "HexEncode (SHA512 e name)"]
    unfolding GetMountStatusSharedMemoryName_def kHexAlphabet_def by (rule order_trans [rotated])
next
  fix options m options' m'
  assume "ReadAndRemoveInitialSharedMemory (SHA512 e) name options m = Inr (options', m')"
  then show "mount_status_shared_object_name options' = GetMountStatusSharedMemoryName (SHA512 e) name"
    by (simp add: ReadAndRemoveInitialSharedMemory_def Let_def split: sum.splits) auto
next
  fix s s'
  assume a: "initial_shared_memory_name_m s = name \<and> CreateMountStatusSharedMemory e s = Returns s'"
  then show "shm s (GetMountStatusSharedMemoryName (SHA512 e) name) = None"
    by (auto simp: CreateMountStatusSharedMemory_def Let_def split: option.splits)
  from a show "shm s' = (shm s)(GetMountStatusSharedMemoryName (SHA512 e) name \<mapsto> MountStatusRegion)"
    by (auto simp: CreateMountStatusSharedMemory_def Let_def split: option.splits)
qed

theorem GetMountStatusSharedMemoryName_hex_witness:
  "length (SHA512 example_env ''abcdefghijklmnopqrstuvwxyz012345'') = 64
   \<and> GetMountStatusSharedMemoryName (SHA512 example_env) ''abcdefghijklmnopqrstuvwxyz012345''
       = ''6162636465666768696a6b6c6d6e6f70''
   \<and> length (GetMountStatusSharedMemoryName (SHA512 example_env) ''abcdefghijklmnopqrstuvwxyz012345'') = 32
   \<and> ReadAndRemoveInitialSharedMemory (SHA512 example_env) ''abcdefghijklmnopqrstuvwxyz012345''
        example_options (shm example_mounted)
       = Inr (example_options\<lparr>mount_status_shared_object_name := ''6162636465666768696a6b6c6d6e6f70''\<rparr>,
              [''6162636465666768696a6b6c6d6e6f70'' \<mapsto> MountStatusRegion])
   \<and> mount_status_shared_object_name
        (example_options\<lparr>mount_status_shared_object_name := ''6162636465666768696a6b6c6d6e6f70''\<rparr>)
       = GetMountStatusSharedMemoryName (SHA512 example_env) ''abcdefghijklmnopqrstuvwxyz012345''"
proof -
  let ?name = "''abcdefghijklmnopqrstuvwxyz012345''"
  let ?options' = "example_options\<lparr>mount_status_shared_object_name := ''6162636465666768696a6b6c6d6e6f70''\<rparr>"
  have len: "length (SHA512 example_env ?name) = 64"
    by (simp add: example_env_def example_digest_def)
  note t = GetMountStatusSharedMemoryName_hex [OF len]
  have hex: "HexEncode (take 16 (SHA512 example_env ?name)) = ''6162636465666768696a6b6c6d6e6f70''"
    by (simp add: example_env_def example_digest_def HexEncode_def kHexAlphabet_def)
  from t have "GetMountStatusSharedMemoryName (SHA512 example_env) ?name
      = HexEncode (take 16 (SHA512 example_env ?name))" by blast
  then have nm: "GetMountStatusSharedMemoryName (SHA512 example_env) ?name
      = ''6162636465666768696a6b6c6d6e6f70''" by (simp only: hex)
  from t have l: "length (GetMountStatusSharedMemoryName (SHA512 example_env) ?name) = 32"
    by blast
  have stored: "shm example_mounted ?name = Some (StringVector
      [''/tmp/x'', ''/tmp/y'', replicate 64 (CHR ''u''), replicate 64 (CHR ''r''), ''MyDrive'', ''1''])"
    by (simp add: example_mounted_def example_args_def)
  have rd: "ReadAndRemoveInitialSharedMemory (SHA512 example_env) ?name example_options (shm example_mounted)
      = Inr (?options', [''6162636465666768696a6b6c6d6e6f70'' \<mapsto> MountStatusRegion])"
    using read_written [where m = "shm example_mounted" and name = ?name and cs = True
        and H = "SHA512 example_env" and options = example_options, OF stored]
    by (simp add: nm) (auto simp: example_options_def example_mounted_def)
  from t rd have "mount_status_shared_object_name ?options'
      = GetMountStatusSharedMemoryName (SHA512 example_env) ?name" by blast
  with len nm l rd show ?thesis by blast
qed

text \<open>
  C6. \<open>GetDriveExecutablePath\<close> maps local to local_drive, local-with-console to
  local_drive_console, network to network_drive and network-with-console to
  network_drive_console (each passed to \<open>GetOtherExecutablePath\<close>), and throws
  \<open>invalid_parameter\<close> for every other value of the drive type.
\<close>

theorem GetDriveExecutablePath_mapping:
  "GetDriveExecutablePath g kLocal = Inr (g ''local_drive'')
   \<and> GetDriveExecutablePath g kLocalConsole = Inr (g ''local_drive_console'')
   \<and> GetDriveExecutablePath g kNetwork = Inr (g ''network_drive'')
   \<and> GetDriveExecutablePath g kNetworkConsole = Inr (g ''network_drive_console'')
   \<and> (dt \<notin> {kLocal, kLocalConsole, kNetwork, kNetworkConsole} \<longrightarrow>
        GetDriveExecutablePath g dt = Inl CommonErrors_invalid_parameter)"
  by (simp add: GetDriveExecutablePath_def kLocal_def kLocalConsole_def kNetwork_def
      kNetworkConsole_def)

theorem GetDriveExecutablePath_mapping_witness:
  "(7 :: DriveType) \<notin> {kLocal, kLocalConsole, kNetwork, kNetworkConsole}
   \<and> GetDriveExecutablePath (\<lambda>name. ''/usr/bin/'' @ name) 7 = Inl CommonErrors_invalid_parameter
   \<and> GetDriveExecutablePath (\<lambda>name. ''/usr/bin/'' @ name) kNetwork = Inr ''/usr/bin/network_drive''"
proof -
  have out: "(7 :: DriveType) \<notin> {kLocal, kLocalConsole, kNetwork, kNetworkConsole}"
    by (simp add: kLocal_def kLocalConsole_def kNetwork_def kNetworkConsole_def)
  note m = GetDriveExecutablePath_mapping [of "\<lambda>name. ''/usr/bin/'' @ name" 7]
  from m have "GetDriveExecutablePath (\<lambda>name. ''/usr/bin/'' @ name) kNetwork
      = Inr (''/usr/bin/'' @ ''network_drive'')"
    by blast
  moreover from m out
  have "GetDriveExecutablePath (\<lambda>name. ''/usr/bin/'' @ name) 7 = Inl CommonErrors_invalid_parameter"
    by blast
  ultimately show ?thesis using out by simp
qed

text \<open>
  C9, as the code has it. \<open>GetNextAvailableDrivePath\<close> scans from C upwards: it returns
  the first letter from C to Z that is not assigned, and it throws
  \<open>no_drive_letter_available\<close> exactly when every letter from C to Z is assigned. A and
  B are never looked at.
\<close>

theorem GetNextAvailableDrivePath_first_free_from_C:
  "(GetNextAvailableDrivePath dl = Inl DriveErrors_no_drive_letter_available)
     = (\<forall>i\<in>{2..25}. bit dl i)
   \<and> (\<forall>n\<in>{2..25}. \<not> bit dl n \<and> (\<forall>i\<in>{2..<n}. bit dl i) \<longrightarrow>
         GetNextAvailableDrivePath dl = Inr [char_of (of_char CHR ''A'' + n), CHR '':''])"
proof -
  obtain k where k: "drive_letter_loop dl 4 67 = 67 + k"
    "\<not> bit dl (2 + k)" "\<forall>j<k. bit dl (2 + j)" by (rule drive_letter_loop_from_C)
  have fails: "(GetNextAvailableDrivePath dl = Inl DriveErrors_no_drive_letter_available) = (24 \<le> k)"
    by (auto simp: GetNextAvailableDrivePath_def k(1) Let_def)
  have "(24 \<le> k) = (\<forall>i\<in>{2..25}. bit dl i)"
  proof
    assume "24 \<le> k"
    show "\<forall>i\<in>{2..25}. bit dl i"
    proof
      fix i :: nat assume "i \<in> {2..25}"
      then have "i - 2 < k" "i = 2 + (i - 2)" using \<open>24 \<le> k\<close> by auto
      then show "bit dl i" using k(3) by metis
    qed
  next
    assume all: "\<forall>i\<in>{2..25}. bit dl i"
    show "24 \<le> k"
    proof (rule ccontr)
      assume "\<not> 24 \<le> k"
      then have "2 + k \<in> {2..25}" by auto
      then show False using all k(2) by blast
    qed
  qed
  with fails have first: "(GetNextAvailableDrivePath dl = Inl DriveErrors_no_drive_letter_available)
      = (\<forall>i\<in>{2..25}. bit dl i)" by simp
  have second: "\<forall>n\<in>{2..25}. \<not> bit dl n \<and> (\<forall>i\<in>{2..<n}. bit dl i) \<longrightarrow>
         GetNextAvailableDrivePath dl = Inr [char_of (of_char CHR ''A'' + n), CHR '':'']"
  proof (intro ballI impI)
    fix n :: nat assume n: "n \<in> {2..25}" and free: "\<not> bit dl n \<and> (\<forall>i\<in>{2..<n}. bit dl i)"
    have "n = 2 + k"
    proof (rule ccontr)
      assume ne: "n \<noteq> 2 + k"
      show False
      proof (cases "n < 2 + k")
        case True
        then have "n - 2 < k" "n = 2 + (n - 2)" using n by auto
        then have "bit dl n" using k(3) by metis
        then show False using free by simp
      next
        case False
        then have "2 + k \<in> {2..<n}" using ne by auto
        then show False using free k(2) by blast
      qed
    qed
    then have "k \<le> 23" using n by auto
    then show "GetNextAvailableDrivePath dl = Inr [char_of (of_char CHR ''A'' + n), CHR '':'']"
      using \<open>n = 2 + k\<close> by (simp add: GetNextAvailableDrivePath_def k(1) Let_def)
  qed
  from first second show ?thesis by (rule conjI)
qed

theorem GetNextAvailableDrivePath_first_free_from_C_witness:
  "\<not> bit (0xC :: 32 word) 4 \<and> bit (0xC :: 32 word) 2 \<and> bit (0xC :: 32 word) 3
   \<and> GetNextAvailableDrivePath 0xC = Inr ''E:''"
proof -
  have "{2..<4} = {2, 3::nat}" by auto
  then have bits: "\<not> bit (0xC :: 32 word) 4 \<and> (\<forall>i\<in>{2..<4}. bit (0xC :: 32 word) i)"
    by simp
  have "(4::nat) \<in> {2..25}" by simp
  from GetNextAvailableDrivePath_first_free_from_C
    [of "0xC", THEN conjunct2, THEN bspec, OF this, THEN mp, OF bits]
  have "GetNextAvailableDrivePath 0xC = Inr [char_of (of_char CHR ''A'' + (4::nat)), CHR '':'']" .
  moreover have "char_of (of_char CHR ''A'' + (4::nat)) = CHR ''E''" by code_simp
  ultimately show ?thesis using bits by simp
qed

text \<open>
  C9, as the claim states it, fails: with C to Z assigned and A and B free (the mask
  0x03FFFFFC) the helper throws \<open>no_drive_letter_available\<close>, although two letters of
  A-Z are unused.
\<close>

theorem GetNextAvailableDrivePath_counterexample:
  "GetNextAvailableDrivePath 0x03FFFFFC = Inl DriveErrors_no_drive_letter_available
   \<and> \<not> bit (0x03FFFFFC :: 32 word) 0 \<and> \<not> bit (0x03FFFFFC :: 32 word) 1"
  unfolding GetNextAvailableDrivePath_def by (simp add: drive_letter_loop.simps)

text \<open>
  C1, at two failing constructions. With a drive type outside the four enumerators the
  constructor throws \<open>invalid_parameter\<close>; with a child that never signals "mounted"
  and then exits it throws \<open>failed_to_mount\<close>. In both, \<open>cleanup_on_throw\<close> has run
  and no child is left running, but the initial shared memory and the mount-status
  region are still registered: only the destructor removes them, and it does not run
  for an object whose constructor threw.
\<close>

theorem failed_construction_leaves_names:
  "Launcher_ctor example_env (example_options\<lparr>drive_type := 7\<rparr>) Map.empty =
     Throws CommonErrors_invalid_parameter
       \<lparr>initial_shared_memory_name_m = ''abcdefghijklmnopqrstuvwxyz012345'',
        mount_status_m = Some \<lparr>mounted = False, unmount = False\<rparr>,
        drive_process_m = False,
        shm = [''abcdefghijklmnopqrstuvwxyz012345'' \<mapsto> StringVector example_args,
               ''6162636465666768696a6b6c6d6e6f70'' \<mapsto> MountStatusRegion],
        child = NoProcess\<rparr>
   \<and> Launcher_ctor (example_env\<lparr>child_notifies_mounted := False\<rparr>) example_options Map.empty =
     Throws DriveErrors_failed_to_mount
       \<lparr>initial_shared_memory_name_m = ''abcdefghijklmnopqrstuvwxyz012345'',
        mount_status_m = Some \<lparr>mounted = False, unmount = True\<rparr>,
        drive_process_m = False,
        shm = [''abcdefghijklmnopqrstuvwxyz012345'' \<mapsto> StringVector example_args,
               ''6162636465666768696a6b6c6d6e6f70'' \<mapsto> MountStatusRegion],
        child = Exited 0\<rparr>"
  by (simp add: step_defs example_defs)

text \<open>
  C2, where the code misses it. The child is started, does not signal "mounted" before
  the deadline and never exits (a child that hangs, or one that comes to signal
  "mounted" only after the cleanup has taken the mutex, which it then waits for).
  \<open>WaitForDriveToMount\<close> throws \<open>failed_to_mount\<close>; in the cleanup \<open>mounted\<close> is
  false already, so the bounded wait of \<open>StopDriveProcess\<close> returns at once, its
  fallback \<open>terminate\<close> is not reached, and the wait for the child's exit has no bound:
  the constructor neither throws \<open>failed_to_mount\<close> nor returns. The fallback does its
  work where the wait is entered with \<open>mounted\<close> set: a child that signals "mounted"
  between the throw and the cleanup and then does not answer is terminated, and the
  constructor throws \<open>failed_to_mount\<close>.
\<close>

theorem mount_timeout_constructor_blocks:
  "execute_succeeds (example_env\<lparr>child_notifies_mounted := False, child_exit_code := None\<rparr>)
      ''/usr/bin/local_drive'' [''/usr/bin/local_drive'', ''--shared_memory abcdefghijklmnopqrstuvwxyz012345'']
   \<and> \<not> child_notifies_mounted (example_env\<lparr>child_notifies_mounted := False, child_exit_code := None\<rparr>)
   \<and> Launcher_ctor (example_env\<lparr>child_notifies_mounted := False, child_exit_code := None\<rparr>)
        example_options Map.empty = BlocksForever
   \<and> Launcher_ctor
        (example_env\<lparr>child_notifies_mounted := False, child_notifies_mounted_late := True,
           child_notifies_unmounted := False, child_exit_code := None\<rparr>)
        example_options Map.empty
       = Throws DriveErrors_failed_to_mount
           (example_mounted\<lparr>mount_status_m := Some \<lparr>mounted = True, unmount = True\<rparr>,
              child := Terminated, drive_process_m := False\<rparr>)"
  by (simp add: step_defs example_defs)

text \<open>
  C3, as the code has it. With a running child and \<open>mounted\<close> set, when the child does
  not clear \<open>mounted\<close> before the deadline, \<open>StopDriveProcess\<close> sets \<open>unmount\<close>,
  terminates the child, clears the handle and returns; it leaves the shared-memory names
  as they are. The destructor does the same and then removes both names.
\<close>

theorem teardown_after_unmount_timeout:
  assumes "drive_process_m s" and "mount_status_m s = Some ms" and "child s = Running"
    and "mounted ms" and "\<not> child_notifies_unmounted e"
  shows "StopDriveProcess e s =
      Returns (s\<lparr>mount_status_m := Some (ms\<lparr>unmount := True\<rparr>),
                 child := Terminated, drive_process_m := False\<rparr>)
    \<and> shm (s\<lparr>mount_status_m := Some (ms\<lparr>unmount := True\<rparr>),
                 child := Terminated, drive_process_m := False\<rparr>) = shm s
    \<and> (\<exists>s'. Launcher_dtor e s = Returns s'
          \<and> child s' = Terminated \<and> \<not> drive_process_m s'
          \<and> shm s' (initial_shared_memory_name_m s) = None
          \<and> shm s' (GetMountStatusSharedMemoryName (SHA512 e) (initial_shared_memory_name_m s)) = None)"
proof -
  have stop: "StopDriveProcess e s =
      Returns (s\<lparr>mount_status_m := Some (ms\<lparr>unmount := True\<rparr>),
                 child := Terminated, drive_process_m := False\<rparr>)"
    using assms
    by (simp add: StopDriveProcess_def timed_wait_def child_calls_def terminate_def)
  then show ?thesis
    by (simp add: Launcher_dtor_def remove_names_def ipc_RemoveSharedMemory_def)
qed

theorem teardown_after_unmount_timeout_witness:
  "drive_process_m example_mounted
   \<and> mount_status_m example_mounted = Some \<lparr>mounted = True, unmount = False\<rparr>
   \<and> child example_mounted = Running
   \<and> mounted \<lparr>mounted = True, unmount = False\<rparr>
   \<and> \<not> child_notifies_unmounted (example_env\<lparr>child_notifies_unmounted := False\<rparr>)
   \<and> StopDriveProcess (example_env\<lparr>child_notifies_unmounted := False\<rparr>) example_mounted
       = Returns (example_mounted\<lparr>mount_status_m := Some \<lparr>mounted = True, unmount = True\<rparr>,
           child := Terminated, drive_process_m := False\<rparr>)
   \<and> (\<exists>s'. Launcher_dtor (example_env\<lparr>child_notifies_unmounted := False\<rparr>) example_mounted
          = Returns s'
        \<and> child s' = Terminated \<and> \<not> drive_process_m s'
        \<and> shm s' ''abcdefghijklmnopqrstuvwxyz012345'' = None
        \<and> shm s' ''6162636465666768696a6b6c6d6e6f70'' = None)"
proof -
  let ?e = "example_env\<lparr>child_notifies_unmounted := False\<rparr>"
  have h1: "drive_process_m example_mounted" by (simp add: example_mounted_def)
  have h2: "mount_status_m example_mounted = Some \<lparr>mounted = True, unmount = False\<rparr>"
    by (simp add: example_mounted_def)
  have h3: "child example_mounted = Running" by (simp add: example_mounted_def)
  have h4: "mounted \<lparr>mounted = True, unmount = False\<rparr>" by simp
  have h5: "\<not> child_notifies_unmounted ?e" by simp
  have n1: "initial_shared_memory_name_m example_mounted = ''abcdefghijklmnopqrstuvwxyz012345''"
    by (simp add: example_mounted_def)
  have n2: "GetMountStatusSharedMemoryName (SHA512 example_env) ''abcdefghijklmnopqrstuvwxyz012345''
      = ''6162636465666768696a6b6c6d6e6f70''"
    by (simp add: example_env_def example_name)
  from teardown_after_unmount_timeout [OF h1 h2 h3 h4 h5] h1 h2 h3 h5
  show ?thesis by (simp add: n1 n2)
qed

text \<open>
  C3, as the claim states it, fails for the explicit stop: after \<open>StopDriveProcess\<close> has
  terminated the unresponsive child, both names are still registered.
\<close>

theorem explicit_stop_keeps_names_counterexample:
  "drive_process_m example_mounted \<and> child example_mounted = Running
   \<and> \<not> child_notifies_unmounted (example_env\<lparr>child_notifies_unmounted := False\<rparr>)
   \<and> StopDriveProcess (example_env\<lparr>child_notifies_unmounted := False\<rparr>) example_mounted
       = Returns (example_mounted\<lparr>mount_status_m := Some \<lparr>mounted = True, unmount = True\<rparr>,
           child := Terminated, drive_process_m := False\<rparr>)
   \<and> shm (example_mounted\<lparr>mount_status_m := Some \<lparr>mounted = True, unmount = True\<rparr>,
           child := Terminated, drive_process_m := False\<rparr>) ''abcdefghijklmnopqrstuvwxyz012345''
       = Some (StringVector example_args)
   \<and> shm (example_mounted\<lparr>mount_status_m := Some \<lparr>mounted = True, unmount = True\<rparr>,
           child := Terminated, drive_process_m := False\<rparr>) ''6162636465666768696a6b6c6d6e6f70''
       = Some MountStatusRegion"
  by (simp add: step_defs example_defs)

text \<open>
  C7. Once \<open>StopDriveProcess\<close> has returned, the handle is null, and a second call,
  whatever the child and the system would do, returns at once with the launcher, the
  flags of the region, the shared-memory names and the child as they were.
\<close>

theorem StopDriveProcess_idempotent:
  assumes "StopDriveProcess e s = Returns s'"
  shows "\<not> drive_process_m s' \<and> StopDriveProcess e' s' = Returns s'"
proof -
  have "\<not> drive_process_m s'"
    using assms
    by (auto simp: StopDriveProcess_def split: if_splits option.splits prod.splits)
  then show ?thesis by (simp add: StopDriveProcess_def)
qed

theorem StopDriveProcess_idempotent_witness:
  "StopDriveProcess example_env example_mounted
     = Returns (example_mounted\<lparr>mount_status_m := Some \<lparr>mounted = False, unmount = True\<rparr>,
         child := Exited 0, drive_process_m := False\<rparr>)
   \<and> StopDriveProcess (example_env\<lparr>child_exit_code := None\<rparr>)
       (example_mounted\<lparr>mount_status_m := Some \<lparr>mounted = False, unmount = True\<rparr>,
         child := Exited 0, drive_process_m := False\<rparr>)
     = Returns (example_mounted\<lparr>mount_status_m := Some \<lparr>mounted = False, unmount = True\<rparr>,
         child := Exited 0, drive_process_m := False\<rparr>)"
proof -
  have first: "StopDriveProcess example_env example_mounted
     = Returns (example_mounted\<lparr>mount_status_m := Some \<lparr>mounted = False, unmount = True\<rparr>,
         child := Exited 0, drive_process_m := False\<rparr>)"
    by (simp add: step_defs example_defs)
  from StopDriveProcess_idempotent [OF first, of "example_env\<lparr>child_exit_code := None\<rparr>"] first
  show ?thesis by blast
qed

text \<open>
  C8, as the code has it. When the "unmounted" signal arrives before the deadline (or
  \<open>mounted\<close> is false already), \<open>StopDriveProcess\<close> waits for the exit of the running
  child with no timeout: it returns, with the child exited and the handle cleared, when
  the child exits, and it blocks for ever when the child never exits. The destructor
  does the same.
\<close>

theorem StopDriveProcess_waits_for_exit_without_timeout:
  assumes "drive_process_m s" and "mount_status_m s = Some ms" and "child s = Running"
    and "\<not> mounted ms \<or> child_notifies_unmounted e"
  shows "StopDriveProcess e s =
      (case child_exit_code e of
         None \<Rightarrow> BlocksForever
       | Some c \<Rightarrow> Returns (s\<lparr>mount_status_m := Some (ms\<lparr>mounted := False, unmount := True\<rparr>),
                      child := Exited c, drive_process_m := False\<rparr>))
    \<and> Launcher_dtor e s =
      (case child_exit_code e of
         None \<Rightarrow> BlocksForever
       | Some c \<Rightarrow> Returns (remove_names e
                      (s\<lparr>mount_status_m := Some (ms\<lparr>mounted := False, unmount := True\<rparr>),
                         child := Exited c, drive_process_m := False\<rparr>)))"
proof -
  have stop: "StopDriveProcess e s =
      (case child_exit_code e of
         None \<Rightarrow> BlocksForever
       | Some c \<Rightarrow> Returns (s\<lparr>mount_status_m := Some (ms\<lparr>mounted := False, unmount := True\<rparr>),
                      child := Exited c, drive_process_m := False\<rparr>))"
    using assms
    by (cases "mounted ms"; cases "child_exit_code e")
      (simp_all add: StopDriveProcess_def timed_wait_def child_calls_def NotifyMountedAndWaitForUnmountRequest_def NotifyUnmounted_def
    DoNotifyMountStatus_def
        wait_for_exit_def)
  then show ?thesis
    by (cases "child_exit_code e") (simp_all add: Launcher_dtor_def)
qed

theorem StopDriveProcess_waits_for_exit_without_timeout_witness:
  "drive_process_m example_mounted
   \<and> mount_status_m example_mounted = Some \<lparr>mounted = True, unmount = False\<rparr>
   \<and> child example_mounted = Running
   \<and> child_notifies_unmounted example_env
   \<and> child_exit_code example_env = Some 0
   \<and> StopDriveProcess example_env example_mounted
       = Returns (example_mounted\<lparr>mount_status_m := Some \<lparr>mounted = False, unmount = True\<rparr>,
           child := Exited 0, drive_process_m := False\<rparr>)"
proof -
  have h1: "drive_process_m example_mounted" by (simp add: example_mounted_def)
  have h2: "mount_status_m example_mounted = Some \<lparr>mounted = True, unmount = False\<rparr>"
    by (simp add: example_mounted_def)
  have h3: "child example_mounted = Running" by (simp add: example_mounted_def)
  have h4: "\<not> mounted \<lparr>mounted = True, unmount = False\<rparr> \<or> child_notifies_unmounted example_env"
    by (simp add: example_env_def)
  have h5: "child_exit_code example_env = Some 0" by (simp add: example_env_def)
  from StopDriveProcess_waits_for_exit_without_timeout [OF h1 h2 h3 h4] h1 h2 h3 h4 h5
  show ?thesis by simp
qed

text \<open>
  C8, as the claim states it, fails: the child signals "unmounted" in time and never
  exits; neither \<open>StopDriveProcess\<close> nor the destructor returns.
\<close>

theorem StopDriveProcess_blocks_counterexample:
  "drive_process_m example_mounted \<and> child example_mounted = Running
   \<and> child_notifies_unmounted (example_env\<lparr>child_exit_code := None\<rparr>)
   \<and> StopDriveProcess (example_env\<lparr>child_exit_code := None\<rparr>) example_mounted = BlocksForever
   \<and> Launcher_dtor (example_env\<lparr>child_exit_code := None\<rparr>) example_mounted = BlocksForever"
  by (simp add: step_defs example_defs)

text \<open>
  C10. With a null process handle \<open>StopDriveProcess\<close> returns at once and leaves the
  launcher as it is, also when \<open>mount_status_\<close> is null. So when the constructor fails
  in \<open>CreateInitialSharedMemory\<close>, in \<open>CreateMountStatusSharedMemory\<close> or in
  \<open>GetDriveExecutablePath\<close>, where the handle is still null (and, in the first two,
  \<open>mount_status_\<close> too), the cleanup changes nothing and the exception of the step
  reaches the caller. At no failure point does the constructor dereference a null
  \<open>mount_status_\<close>.
\<close>

theorem unwind_with_null_handle:
  "(\<not> drive_process_m s \<longrightarrow> StopDriveProcess e s = Returns s)
   \<and> (\<forall>err s'. CreateInitialSharedMemory options (member_initialisers e m) = Throws err s' \<longrightarrow>
         mount_status_m s' = None \<and> \<not> drive_process_m s'
         \<and> Launcher_ctor e options m = Throws err s')
   \<and> (\<forall>s1 err s'. CreateInitialSharedMemory options (member_initialisers e m) = Returns s1
         \<and> CreateMountStatusSharedMemory e s1 = Throws err s' \<longrightarrow>
         mount_status_m s' = None \<and> \<not> drive_process_m s'
         \<and> Launcher_ctor e options m = Throws err s')
   \<and> (\<forall>s1 s2 err. CreateInitialSharedMemory options (member_initialisers e m) = Returns s1
         \<and> CreateMountStatusSharedMemory e s1 = Returns s2
         \<and> GetDriveExecutablePath (GetOtherExecutablePath e) (drive_type options) = Inl err \<longrightarrow>
         \<not> drive_process_m s2 \<and> Launcher_ctor e options m = Throws err s2)
   \<and> Launcher_ctor e options m \<noteq> NullDereference"
proof (intro conjI allI impI)
  assume "\<not> drive_process_m s"
  then show "StopDriveProcess e s = Returns s" by (rule StopDriveProcess_null_handle)
next
  fix err s'
  assume a: "CreateInitialSharedMemory options (member_initialisers e m) = Throws err s'"
  then have s': "s' = member_initialisers e m" by (rule CreateInitialSharedMemory_Throws)
  then show "mount_status_m s' = None" and h: "\<not> drive_process_m s'"
    by (simp_all add: member_initialisers_def)
  from s' have c: "child s' \<noteq> Running" by (simp add: member_initialisers_def)
  from a h c show "Launcher_ctor e options m = Throws err s'"
    by (simp add: Launcher_ctor_def construction_steps_def cleanup_on_throw_null_handle)
next
  fix s1 err s'
  assume a: "CreateInitialSharedMemory options (member_initialisers e m) = Returns s1
         \<and> CreateMountStatusSharedMemory e s1 = Throws err s'"
  then have "s' = s1" using CreateMountStatusSharedMemory_Throws by blast
  with a have k: "mount_status_m s' = mount_status_m (member_initialisers e m)
      \<and> drive_process_m s' = drive_process_m (member_initialisers e m)
      \<and> child s' = child (member_initialisers e m)"
    using CreateInitialSharedMemory_keeps by blast
  then show "mount_status_m s' = None" and h: "\<not> drive_process_m s'"
    by (simp_all add: member_initialisers_def)
  from k have c: "child s' \<noteq> Running" by (simp add: member_initialisers_def)
  from a h c show "Launcher_ctor e options m = Throws err s'"
    by (simp add: Launcher_ctor_def construction_steps_def cleanup_on_throw_null_handle)
next
  fix s1 s2 err
  assume a: "CreateInitialSharedMemory options (member_initialisers e m) = Returns s1
         \<and> CreateMountStatusSharedMemory e s1 = Returns s2
         \<and> GetDriveExecutablePath (GetOtherExecutablePath e) (drive_type options) = Inl err"
  then have k: "drive_process_m s2 = drive_process_m (member_initialisers e m)
      \<and> child s2 = child (member_initialisers e m)"
    using CreateInitialSharedMemory_keeps CreateMountStatusSharedMemory_Returns by metis
  then show h: "\<not> drive_process_m s2" by (simp add: member_initialisers_def)
  from k have c: "child s2 \<noteq> Running" by (simp add: member_initialisers_def)
  from a have "StartDriveProcess e options s2 = Throws err s2"
    using StartDriveProcess_invalid by blast
  with a h c show "Launcher_ctor e options m = Throws err s2"
    by (simp add: Launcher_ctor_def construction_steps_def cleanup_on_throw_null_handle)
next
  show "Launcher_ctor e options m \<noteq> NullDereference"
    by (rule Launcher_ctor_not_NullDereference)
qed

theorem unwind_with_null_handle_witness:
  "\<not> drive_process_m (member_initialisers example_env [''abcdefghijklmnopqrstuvwxyz012345'' \<mapsto> MountStatusRegion])
   \<and> mount_status_m (member_initialisers example_env [''abcdefghijklmnopqrstuvwxyz012345'' \<mapsto> MountStatusRegion]) = None
   \<and> StopDriveProcess example_env
        (member_initialisers example_env [''abcdefghijklmnopqrstuvwxyz012345'' \<mapsto> MountStatusRegion])
       = Returns (member_initialisers example_env [''abcdefghijklmnopqrstuvwxyz012345'' \<mapsto> MountStatusRegion])
   \<and> Launcher_ctor example_env example_options [''abcdefghijklmnopqrstuvwxyz012345'' \<mapsto> MountStatusRegion]
       = Throws ResourceUnavailable
           (member_initialisers example_env [''abcdefghijklmnopqrstuvwxyz012345'' \<mapsto> MountStatusRegion])
   \<and> Launcher_ctor example_env example_options [''6162636465666768696a6b6c6d6e6f70'' \<mapsto> MountStatusRegion]
       = Throws ResourceUnavailable
           ((member_initialisers example_env Map.empty)
             \<lparr>shm := [''6162636465666768696a6b6c6d6e6f70'' \<mapsto> MountStatusRegion,
                      ''abcdefghijklmnopqrstuvwxyz012345'' \<mapsto> StringVector example_args]\<rparr>)
   \<and> Launcher_ctor example_env (example_options\<lparr>drive_type := 7\<rparr>) Map.empty
       = Throws CommonErrors_invalid_parameter
           ((member_initialisers example_env Map.empty)
             \<lparr>shm := [''abcdefghijklmnopqrstuvwxyz012345'' \<mapsto> StringVector example_args,
                      ''6162636465666768696a6b6c6d6e6f70'' \<mapsto> MountStatusRegion],
              mount_status_m := Some \<lparr>mounted = False, unmount = False\<rparr>\<rparr>)"
proof -
  let ?taken = "[''abcdefghijklmnopqrstuvwxyz012345'' \<mapsto> MountStatusRegion]"
  let ?taken2 = "[''6162636465666768696a6b6c6d6e6f70'' \<mapsto> MountStatusRegion]"
  let ?s0 = "member_initialisers example_env ?taken"
  let ?bad = "example_options\<lparr>drive_type := 7\<rparr>"
  let ?s1 = "(member_initialisers example_env ?taken2)
      \<lparr>shm := [''6162636465666768696a6b6c6d6e6f70'' \<mapsto> MountStatusRegion,
               ''abcdefghijklmnopqrstuvwxyz012345'' \<mapsto> StringVector example_args]\<rparr>"
  let ?t1 = "(member_initialisers example_env Map.empty)
      \<lparr>shm := [''abcdefghijklmnopqrstuvwxyz012345'' \<mapsto> StringVector example_args]\<rparr>"
  let ?t2 = "(member_initialisers example_env Map.empty)
      \<lparr>shm := [''abcdefghijklmnopqrstuvwxyz012345'' \<mapsto> StringVector example_args,
               ''6162636465666768696a6b6c6d6e6f70'' \<mapsto> MountStatusRegion],
        mount_status_m := Some \<lparr>mounted = False, unmount = False\<rparr>\<rparr>"
  have null: "\<not> drive_process_m ?s0" and ms: "mount_status_m ?s0 = None"
    by (simp_all add: member_initialisers_def)
  have a: "CreateInitialSharedMemory example_options ?s0 = Throws ResourceUnavailable ?s0"
    by (simp add: step_defs example_defs)
  have b: "CreateInitialSharedMemory example_options (member_initialisers example_env ?taken2) = Returns ?s1
      \<and> CreateMountStatusSharedMemory example_env ?s1 = Throws ResourceUnavailable ?s1"
    by (simp add: step_defs example_defs)
  have c: "CreateInitialSharedMemory ?bad (member_initialisers example_env Map.empty) = Returns ?t1
      \<and> CreateMountStatusSharedMemory example_env ?t1 = Returns ?t2
      \<and> GetDriveExecutablePath (GetOtherExecutablePath example_env) (drive_type ?bad)
          = Inl CommonErrors_invalid_parameter"
    by (simp add: step_defs example_defs)
  note t0 = unwind_with_null_handle [of ?s0 example_env example_options ?taken]
  note t2 = unwind_with_null_handle [of ?s0 example_env example_options ?taken2]
  note t3 = unwind_with_null_handle [of ?s0 example_env ?bad Map.empty]
  from t0 null have "StopDriveProcess example_env ?s0 = Returns ?s0" by blast
  moreover from t0 a
  have "Launcher_ctor example_env example_options ?taken = Throws ResourceUnavailable ?s0" by blast
  moreover from t2 b
  have "Launcher_ctor example_env example_options ?taken2 = Throws ResourceUnavailable ?s1" by blast
  moreover from t3 c
  have "Launcher_ctor example_env ?bad Map.empty = Throws CommonErrors_invalid_parameter ?t2" by blast
  ultimately show ?thesis using null ms by (simp add: member_initialisers_def)
qed

end
